theory Spec2Isabelle
  imports Complex_Main
begin

section \<open>Python values, exceptions and the few library functions the module uses\<close>

text \<open>
  The module \<^verbatim>\<open>psychopy/speech/google_speech.py\<close> is Python 2. An exception is a
  class and a message. Of the exception hierarchy only one fact is used by the code:
  whether a class derives from \<^verbatim>\<open>StandardError\<close> (line 205). \<^verbatim>\<open>SystemExit\<close> and
  \<^verbatim>\<open>KeyboardInterrupt\<close> do not, and neither does \<^verbatim>\<open>httplib.HTTPException\<close>, whose
  subclass \<^verbatim>\<open>BadStatusLine\<close> is what \<^verbatim>\<open>urllib2.urlopen\<close> lets through when a server
  closes the connection without a status line.
\<close>

datatype exc_class =
    ValueError | KeyError | TypeError | IndexError | AttributeError
  | IOError | URLError | HTTPError
  | SoundFormatNotSupported | SoundFileError
  | SystemExit | KeyboardInterrupt | BadStatusLine

datatype pyexc = Exc (exc_cls: exc_class) (exc_msg: string)

fun is_StandardError :: "exc_class \<Rightarrow> bool" where
  "is_StandardError SystemExit = False"
| "is_StandardError KeyboardInterrupt = False"
| "is_StandardError BadStatusLine = False"
| "is_StandardError _ = True"

text \<open>
  What \<^verbatim>\<open>json.load\<close> returns. An object is kept as the list of its items in the
  order in which the dict iterates; floats are read as the numbers they denote.
\<close>

datatype json =
    JNull
  | JBool bool
  | JInt int
  | JFloat real
  | JStr string
  | JList "json list"
  | JDict "(string \<times> json) list"

text \<open>
  Three conversions of the Python runtime are not modelled and are taken as parameters:
  \<^verbatim>\<open>str\<close> of a float and of a list or dict (used by \<^verbatim>\<open>%s\<close>), and \<^verbatim>\<open>float\<close> of an
  integer and of a string.
\<close>

record pyrt =
  str_float :: "real \<Rightarrow> string"
  str_container :: "json \<Rightarrow> string"
  float_of_int :: "int \<Rightarrow> pyexc + real"
  float_of_str :: "string \<Rightarrow> pyexc + real"

definition digit_char :: "nat \<Rightarrow> char" where
  "digit_char d = ''0123456789'' ! d"

fun str_nat :: "nat \<Rightarrow> string" where
  "str_nat n = (if n < 10 then [digit_char n] else str_nat (n div 10) @ [digit_char (n mod 10)])"

declare str_nat.simps [simp del]

definition str_int :: "int \<Rightarrow> string" where
  "str_int i = (if i < 0 then CHR ''-'' # str_nat (nat (- i)) else str_nat (nat i))"

text \<open>\<^verbatim>\<open>"%s" % v\<close>: a unicode string is inserted as it is.\<close>

fun pct_s :: "pyrt \<Rightarrow> json \<Rightarrow> string" where
  "pct_s rt (JStr s) = s"
| "pct_s rt JNull = ''None''"
| "pct_s rt (JBool b) = (if b then ''True'' else ''False'')"
| "pct_s rt (JInt i) = str_int i"
| "pct_s rt (JFloat x) = str_float rt x"
| "pct_s rt v = str_container rt v"

text \<open>\<^verbatim>\<open>"%-10s" % v\<close>: left-justified in a field of at least ten characters.\<close>

definition ljust10 :: "string \<Rightarrow> string" where
  "ljust10 s = s @ replicate (10 - length s) CHR '' ''"

text \<open>\<^verbatim>\<open>"%-10s : %s" % (k, v)\<close>, the report line of lines 181 and 186.\<close>

definition report_line :: "pyrt \<Rightarrow> json \<Rightarrow> json \<Rightarrow> string" where
  "report_line rt k v = ljust10 (pct_s rt k) @ '' : '' @ pct_s rt v"

text \<open>\<^verbatim>\<open>for x in v\<close>: the items a value iterates over, or \<^verbatim>\<open>TypeError\<close>.\<close>

fun py_iter :: "json \<Rightarrow> pyexc + json list" where
  "py_iter (JList xs) = Inr xs"
| "py_iter (JDict kvs) = Inr (map (\<lambda>kv. JStr (fst kv)) kvs)"
| "py_iter (JStr s) = Inr (map (\<lambda>c. JStr [c]) s)"
| "py_iter _ = Inl (Exc TypeError ''object is not iterable'')"

text \<open>\<^verbatim>\<open>xs[i]\<close> for a sequence: from the front, or for \<open>i < 0\<close> from the back.\<close>

definition py_index :: "'a list \<Rightarrow> int \<Rightarrow> pyexc + 'a" where
  "py_index xs i =
     (if 0 \<le> i \<and> i < int (length xs) then Inr (xs ! nat i)
      else if i < 0 \<and> - int (length xs) \<le> i then Inr (xs ! nat (i + int (length xs)))
      else Inl (Exc IndexError ''index out of range''))"

text \<open>
  \<^verbatim>\<open>v[k]\<close>. The keys of a decoded object are strings, so any other hashable key is
  a \<^verbatim>\<open>KeyError\<close>; \<^verbatim>\<open>bool\<close> is a subclass of \<^verbatim>\<open>int\<close> and indexes a sequence.
\<close>

fun py_getitem :: "json \<Rightarrow> json \<Rightarrow> pyexc + json" where
  "py_getitem (JDict kvs) (JStr k) =
     (case map_of kvs k of Some v \<Rightarrow> Inr v | None \<Rightarrow> Inl (Exc KeyError k))"
| "py_getitem (JDict kvs) (JList xs) = Inl (Exc TypeError ''unhashable type'')"
| "py_getitem (JDict kvs) (JDict xs) = Inl (Exc TypeError ''unhashable type'')"
| "py_getitem (JDict kvs) k = Inl (Exc KeyError '''')"
| "py_getitem (JList xs) (JInt i) = py_index xs i"
| "py_getitem (JList xs) (JBool b) = py_index xs (if b then 1 else 0)"
| "py_getitem (JList xs) k = Inl (Exc TypeError ''list indices must be integers'')"
| "py_getitem (JStr s) (JInt i) = map_sum id (\<lambda>c. JStr [c]) (py_index s i)"
| "py_getitem (JStr s) (JBool b) = map_sum id (\<lambda>c. JStr [c]) (py_index s (if b then 1 else 0))"
| "py_getitem (JStr s) k = Inl (Exc TypeError ''string indices must be integers'')"
| "py_getitem v k = Inl (Exc TypeError ''object is not subscriptable'')"

text \<open>\<^verbatim>\<open>float(v)\<close>.\<close>

fun py_float :: "pyrt \<Rightarrow> json \<Rightarrow> pyexc + real" where
  "py_float rt (JFloat x) = Inr x"
| "py_float rt (JInt i) = float_of_int rt i"
| "py_float rt (JBool b) = Inr (if b then 1 else 0)"
| "py_float rt (JStr s) = float_of_str rt s"
| "py_float rt v = Inl (Exc TypeError ''float() argument must be a string or a number'')"

text \<open>\<^verbatim>\<open>line.split(':')\<close>: never empty, one more part than there are colons.\<close>

fun split_on :: "char \<Rightarrow> string \<Rightarrow> string list" where
  "split_on c [] = [[]]"
| "split_on c (x # xs) =
     (if x = c then [] # split_on c xs
      else (case split_on c xs of p # ps \<Rightarrow> (x # p) # ps | [] \<Rightarrow> [[x]]))"

text \<open>
  \<^verbatim>\<open>lstrip()\<close> of a unicode string removes leading whitespace. Characters stand for the
  code points below 256; of these Python 2 counts the following as whitespace.
\<close>

definition is_space :: "char \<Rightarrow> bool" where
  "is_space c = (of_char c \<in> {9, 10, 11, 12, 13, 28, 29, 30, 31, 32, 133, 160 :: nat})"

definition lstrip :: "string \<Rightarrow> string" where
  "lstrip s = dropWhile is_space s"

definition startswith :: "string \<Rightarrow> string \<Rightarrow> bool" where
  "startswith s p = (take (length p) s = p)"

text \<open>\<^verbatim>\<open>'\n'.join(report)\<close>.\<close>

fun join_lines :: "string list \<Rightarrow> string" where
  "join_lines [] = []"
| "join_lines [l] = l"
| "join_lines (l # ls) = l @ [CHR 0x0A] @ join_lines ls"

section \<open>The query task: \<^verbatim>\<open>_GSQueryThread\<close>\<close>

text \<open>
  The request object built at the end of \<^verbatim>\<open>GoogleSpeech.__init__\<close>:
  \<^verbatim>\<open>urllib2.Request(url, audio, header)\<close>.
\<close>

record request =
  url :: string
  audio :: string
  header :: "(string \<times> string) list"

text \<open>
  The value of \<^verbatim>\<open>self.raw\<close>: the empty string of \<^verbatim>\<open>_reset\<close>, or the response
  object that \<^verbatim>\<open>urlopen\<close> returned. A response is represented by what \<^verbatim>\<open>json.load\<close>
  makes of its body: a value, or nothing when the body is not JSON.
\<close>

datatype raw = EmptyStr | Response "json option"

text \<open>
  The attributes of the thread object. \<^verbatim>\<open>status\<close> and \<^verbatim>\<open>conf\<close> do not exist
  until assigned (\<open>None\<close>), \<^verbatim>\<open>file\<close> (here \<open>filename\<close>) is attached by \<^verbatim>\<open>getThread\<close>. \<^verbatim>\<open>words\<close> starts
  as an empty list and is later a tuple; both are a list here.
\<close>

record task =
  request :: request
  t0 :: "real option"
  response :: "raw option"
  duration :: "real option"
  stopflag :: bool
  running :: bool
  timedout :: bool
  started :: bool
  confidence :: "real option"
  json :: "json option"
  raw :: raw
  word :: string
  detailed :: string
  words :: "string list"
  status :: "json option"
  conf :: "real option"
  filename :: "string option"

text \<open>\<^verbatim>\<open>__init__\<close> followed by \<^verbatim>\<open>_reset\<close> (lines 141 to 165).\<close>

definition init_task :: "request \<Rightarrow> task" where
  "init_task req =
     \<lparr> request = req, t0 = None, response = None, duration = None, stopflag = False,
       running = False, timedout = False, started = False,
       confidence = None, json = None, raw = EmptyStr, word = [], detailed = [],
       words = [], status = None, conf = None, filename = None \<rparr>"

text \<open>
  \<^verbatim>\<open>elapsed\<close> (lines 166 to 173), given the reading of the clock. Subtracting from a
  start time that was never recorded would be a \<^verbatim>\<open>TypeError\<close>.
\<close>

definition elapsed :: "real \<Rightarrow> task \<Rightarrow> pyexc + real option" where
  "elapsed now t =
     (if \<not> started t then Inr None
      else if running t then
        (case t0 t of
           None \<Rightarrow> Inl (Exc TypeError ''unsupported operand type(s) for -'')
         | Some s \<Rightarrow> Inr (Some (now - s)))
      else Inr (duration t))"

text \<open>\<^verbatim>\<open>stop\<close> (lines 217 and 218).\<close>

definition stop :: "task \<Rightarrow> task" where
  "stop t = t\<lparr>running := False\<rparr>"

subsection \<open>The response parser: \<^verbatim>\<open>_unpackRaw\<close>\<close>

definition json_load :: "raw \<Rightarrow> pyexc + json" where
  "json_load r =
     (case r of
        EmptyStr \<Rightarrow> Inl (Exc AttributeError ''str object has no attribute read'')
      | Response None \<Rightarrow> Inl (Exc ValueError ''No JSON object could be decoded'')
      | Response (Some j) \<Rightarrow> Inr j)"

text \<open>
  The inner loop of lines 180 to 183 over the keys \<open>ks\<close> of one hypothesis \<open>u\<close>. The
  state of the loop is the report so far and the confidence the loop stored last; an exception
  leaves the loop with the state reached.
\<close>

fun hyp_fields ::
  "pyrt \<Rightarrow> json \<Rightarrow> json list \<Rightarrow> string list \<times> real option \<Rightarrow>
     (string list \<times> real option) \<times> pyexc option" where
  "hyp_fields rt u [] acc = (acc, None)"
| "hyp_fields rt u (k # ks) (report, cf) =
     (case py_getitem u k of
        Inl e \<Rightarrow> ((report, cf), Some e)
      | Inr v \<Rightarrow>
          (let report' = report @ [report_line rt k v] in
           if k = JStr ''confidence'' then
             (case py_float rt v of
                Inl e \<Rightarrow> ((report', cf), Some e)
              | Inr x \<Rightarrow> hyp_fields rt u ks (report', Some x))
           else hyp_fields rt u ks (report', cf)))"

text \<open>The outer loop of line 179 over the hypotheses.\<close>

fun hyp_loop ::
  "pyrt \<Rightarrow> json list \<Rightarrow> string list \<times> real option \<Rightarrow>
     (string list \<times> real option) \<times> pyexc option" where
  "hyp_loop rt [] acc = (acc, None)"
| "hyp_loop rt (u # us) acc =
     (case py_iter u of
        Inl e \<Rightarrow> (acc, Some e)
      | Inr ks \<Rightarrow>
          (case hyp_fields rt u ks acc of
             (acc', Some e) \<Rightarrow> (acc', Some e)
           | (acc', None) \<Rightarrow> hyp_loop rt us acc'))"

text \<open>The loop of lines 184 to 186 over the keys of the whole response.\<close>

fun top_fields :: "pyrt \<Rightarrow> json \<Rightarrow> json list \<Rightarrow> string list \<Rightarrow> string list \<times> pyexc option" where
  "top_fields rt j [] report = (report, None)"
| "top_fields rt j (key # keys) report =
     (if key \<noteq> JStr ''hypotheses'' then
        (case py_getitem j key of
           Inl e \<Rightarrow> (report, Some e)
         | Inr v \<Rightarrow> top_fields rt j keys (report @ [report_line rt key v]))
      else top_fields rt j keys report)"

text \<open>
  Lines 188 and 189: of every report line that starts with \<^verbatim>\<open>utterance\<close>, the second
  of the parts between colons, without leading whitespace.
\<close>

fun words_of :: "string list \<Rightarrow> pyexc + string list" where
  "words_of [] = Inr []"
| "words_of (line # ls) =
     (if startswith line ''utterance'' then
        (case split_on CHR '':'' line of
           p0 # p1 # ps \<Rightarrow>
             (case words_of ls of Inl e \<Rightarrow> Inl e | Inr ws \<Rightarrow> Inr (lstrip p1 # ws))
         | _ \<Rightarrow> Inl (Exc IndexError ''list index out of range''))
      else words_of ls)"

text \<open>
  Line 183 assigns \<^verbatim>\<open>self.conf\<close> and \<^verbatim>\<open>self.confidence\<close> together; \<open>cf\<close> is the
  value last assigned by the loop, if it assigned any.
\<close>

definition store_conf :: "real option \<Rightarrow> task \<Rightarrow> task" where
  "store_conf cf t = (case cf of None \<Rightarrow> t | Some x \<Rightarrow> t\<lparr>confidence := Some x, conf := Some x\<rparr>)"

text \<open>
  \<^verbatim>\<open>_unpackRaw\<close> (lines 174 to 193). The result is the task as the method leaves it and
  the exception it ends with, if any: the assignments made before an exception stay.
\<close>

definition unpackRaw :: "pyrt \<Rightarrow> task \<Rightarrow> task \<times> pyexc option" where
  "unpackRaw rt t =
     (case json_load (raw t) of
        Inl e \<Rightarrow> (t, Some e)
      | Inr j \<Rightarrow>
     let t1 = t\<lparr>json := Some j\<rparr> in
     (case py_getitem j (JStr ''status'') of
        Inl e \<Rightarrow> (t1, Some e)
      | Inr st \<Rightarrow>
     let t2 = t1\<lparr>status := Some st\<rparr> in
     (case py_getitem j (JStr ''hypotheses'') of
        Inl e \<Rightarrow> (t2, Some e)
      | Inr hyps \<Rightarrow>
     (case py_iter hyps of
        Inl e \<Rightarrow> (t2, Some e)
      | Inr us \<Rightarrow>
     (case hyp_loop rt us ([], None) of
        ((report, cf), Some e) \<Rightarrow> (store_conf cf t2, Some e)
      | ((report, cf), None) \<Rightarrow>
     let t3 = store_conf cf t2 in
     (case py_iter j of
        Inl e \<Rightarrow> (t3, Some e)
      | Inr keys \<Rightarrow>
     (case top_fields rt j keys report of
        (report', Some e) \<Rightarrow> (t3, Some e)
      | (report', None) \<Rightarrow>
     let t4 = t3\<lparr>detailed := join_lines report'\<rparr> in
     (case words_of report' of
        Inl e \<Rightarrow> (t4, Some e)
      | Inr ws \<Rightarrow>
     let t5 = t4\<lparr>words := ws\<rparr> in
     (t5\<lparr>word := (if length (words t5) \<noteq> 0 then hd (words t5) else [])\<rparr>, None)))))))))"

section \<open>Options and the request builder\<close>

text \<open>
  The attributes of the options object that \<^verbatim>\<open>OptionParser\<close> produces (lines 103 to
  115): \<^verbatim>\<open>-l\<close>, \<^verbatim>\<open>-r\<close>, \<^verbatim>\<open>-t\<close>, \<^verbatim>\<open>-p\<close>, \<^verbatim>\<open>-f\<close> and \<^verbatim>\<open>-v\<close>.
\<close>

record options =
  lang :: string
  samplingrate :: int
  timeout :: real
  flac :: string
  pro_filter :: int
  quiet :: bool

text \<open>
  \<^verbatim>\<open>_parse_options\<close> (lines 84 to 120), applied to what \<^verbatim>\<open>parser.parse_args()\<close>
  returned: the rate is replaced unless it is one of the two supported, the timeout is
  capped.
\<close>

definition parse_options :: "options \<Rightarrow> options" where
  "parse_options opt =
     (let opt1 = (if samplingrate opt \<notin> set [16000, 8000] then opt\<lparr>samplingrate := 16000\<rparr> else opt)
      in opt1\<lparr>timeout := min (timeout opt1) 30\<rparr>)"

text \<open>
  \<^verbatim>\<open>_message\<close> (lines 73 to 79) prints unless \<^verbatim>\<open>gsOptions.quiet\<close>; a message that
  ends with a comma is printed without its leading and trailing commas.
\<close>

definition strip_commas :: "string \<Rightarrow> string" where
  "strip_commas m =
     rev (dropWhile (\<lambda>c. c = CHR '','') (rev (dropWhile (\<lambda>c. c = CHR '','') m)))"

definition print_message :: "options \<Rightarrow> string \<Rightarrow> string list \<Rightarrow> string list" where
  "print_message gso m out =
     (if \<not> quiet gso then
        (if m \<noteq> [] \<and> last m = CHR '','' then out @ [strip_commas m] else out @ [m])
      else out)"

text \<open>The \<^verbatim>\<open>GoogleSpeech\<close> object: \<^verbatim>\<open>self.timeout\<close>, \<^verbatim>\<open>self.file\<close>, \<^verbatim>\<open>self.request\<close>.\<close>

record gs =
  self_timeout :: real
  self_file :: string
  self_request :: request

text \<open>
  The machine the module runs on: the global \<^verbatim>\<open>FLAC_PATH\<close> and \<^verbatim>\<open>gsOptions\<close>, the
  path separators of \<^verbatim>\<open>os.path\<close>, the name \<^verbatim>\<open>tmp\<close> that line 244 makes from the
  clock, and the external encoder: what its \<open>n\<close>-th run writes to standard error, and
  the bytes of the output file if that run wrote one.
\<close>

record host =
  FLAC_PATH :: string
  gsOptions :: options
  seps :: string
  tmp :: string
  flac_run :: "nat \<Rightarrow> string \<times> string option"

text \<open>
  The file system and what the constructor has done so far: the commands run by
  \<^verbatim>\<open>_shellCall\<close>, the lines printed and logged, the sleeps, the files opened for
  reading, the request objects constructed.
\<close>

datatype fstat = Missing | Unreadable | File string

record world =
  files :: "string \<Rightarrow> fstat"
  shell_log :: "string list list"
  out :: "string list"
  warned :: "string list"
  sleeps :: nat
  opened :: "string list"
  built :: "request list"

definition isfile :: "world \<Rightarrow> string \<Rightarrow> bool" where
  "isfile w f = (files w f \<noteq> Missing)"

definition wmessage :: "host \<Rightarrow> string \<Rightarrow> world \<Rightarrow> world" where
  "wmessage h m w = w\<lparr>out := print_message (gsOptions h) m (out w)\<rparr>"

text \<open>
  The extension as \<^verbatim>\<open>os.path.splitext(file)[1]\<close> finds it: from the last dot of the
  last path component, unless only dots stand before it in that component.
\<close>

definition splitext_ext :: "string \<Rightarrow> string \<Rightarrow> string" where
  "splitext_ext sp p =
     (let base = rev (takeWhile (\<lambda>c. c \<notin> set sp) (rev p));
          suffix = rev (takeWhile (\<lambda>c. c \<noteq> CHR ''.'') (rev base));
          stem = rev (drop 1 (dropWhile (\<lambda>c. c \<noteq> CHR ''.'') (rev base)))
      in if CHR ''.'' \<notin> set base \<or> (\<forall>c \<in> set stem. c = CHR ''.'') then []
         else CHR ''.'' # suffix)"

text \<open>
  Lines 246 and 247 (and 252 and 253): \<^verbatim>\<open>_shellCall(flac_cmd)\<close> runs the encoder,
  which may write the file \<^verbatim>\<open>tmp\<close>; what it wrote to standard error is printed.
\<close>

definition run_flac :: "host \<Rightarrow> string list \<Rightarrow> world \<Rightarrow> world" where
  "run_flac h cmd w =
     (let (se, written) = flac_run h (length (shell_log w));
          w1 = w\<lparr>shell_log := shell_log w @ [cmd],
                 files := (case written of
                             None \<Rightarrow> files w
                           | Some bytes \<Rightarrow> (files w)(tmp h := File bytes))\<rparr>
      in if se \<noteq> [] then wmessage h se w1 else w1)"

text \<open>
  The loop of lines 248 to 253. It has no counter; \<open>None\<close> is the loop that never ends.
\<close>

partial_function (option) convert_loop :: "host \<Rightarrow> string list \<Rightarrow> world \<Rightarrow> world option" where
  "convert_loop h cmd w =
     (if \<not> isfile w (tmp h) then
        convert_loop h cmd
          (run_flac h cmd (wmessage h ''Failed to convert to tmp.flac; trying again'' w))
      else Some w)"

text \<open>
  The loop of lines 258 to 260, with \<open>n\<close> the rounds left of its ten. The file system
  changes by the constructor's own actions only.
\<close>

fun wait_file :: "string \<Rightarrow> nat \<Rightarrow> world \<Rightarrow> world" where
  "wait_file f 0 w = w"
| "wait_file f (Suc n) w =
     (if \<not> isfile w f then wait_file f n (w\<lparr>sleeps := sleeps w + 1\<rparr>) else w)"

text \<open>
  Lines 255 to 283, for the file \<open>f\<close> to read (the input, or \<^verbatim>\<open>tmp\<close> for a wav
  input). The \<^verbatim>\<open>finally\<close> clause removes \<^verbatim>\<open>tmp\<close>; for an input that was not
  converted the name \<^verbatim>\<open>tmp\<close> is unbound and the clause does nothing. Constructing the
  \<^verbatim>\<open>urllib2.Request\<close> is taken not to raise.
\<close>

definition load_and_build ::
  "host \<Rightarrow> string \<Rightarrow> options \<Rightarrow> string \<Rightarrow> bool \<Rightarrow> string \<Rightarrow> world \<Rightarrow> world \<times> (pyexc + gs)" where
  "load_and_build h orig opt filetype converted f w =
     (let w1 = wmessage h (''Loading: '' @ orig @ '' as '' @ lang opt @ '', audio/'' @ filetype) w;
          w2 = wait_file f 10 w1;
          w3 = w2\<lparr>opened := opened w2 @ [f]\<rparr>;
          cleanup = (\<lambda>v. if converted then v\<lparr>files := (files v)(tmp h := Missing)\<rparr> else v)
      in case files w3 f of
           File bytes \<Rightarrow>
             (let w4 = cleanup w3;
                  u = ''https://'' @ ''www.google.com/speech-api/v1/recognize'' @ ''?xjerr=1&'' @
                      ''client=psychopy2&'' @ ''lang='' @ lang opt @ ''&pfilter='' @
                      str_int (pro_filter opt) @ ''&maxresults='' @ str_int 5;
                  hdr = [(''Content-Type'',
                           ''audio/'' @ filetype @ ''; rate='' @ str_int (samplingrate opt)),
                        (''User-Agent'',
                           ''PsychoPy: open-source Psychology & Neuroscience tools; www.psychopy.org'')];
                  req = \<lparr>url = u, audio = bytes, header = hdr\<rparr>
              in (w4\<lparr>built := built w4 @ [req]\<rparr>,
                  Inr \<lparr>self_timeout = timeout opt, self_file = orig, self_request = req\<rparr>))
         | _ \<Rightarrow>
             (let msg = ''Can't read file '' @ f @ '' from '' @ orig @ ''.'' @ [CHR 0x0A];
                  w4 = w3\<lparr>warned := warned w3 @ [msg]\<rparr>
              in (cleanup w4, Inl (Exc SoundFileError msg))))"

text \<open>
  \<^verbatim>\<open>GoogleSpeech.__init__\<close> (lines 222 to 283): the world it leaves and the object
  or the exception; \<open>None\<close> when it never returns.
\<close>

definition GoogleSpeech_init ::
  "host \<Rightarrow> string \<Rightarrow> options \<Rightarrow> world \<Rightarrow> (world \<times> (pyexc + gs)) option" where
  "GoogleSpeech_init h f opt w =
     (let ext = splitext_ext (seps h) f in
      if \<not> isfile w f then Some (w, Inl (Exc IOError (''Cannot find file: '' @ f)))
      else if ext \<notin> set [''.flac'', ''.spx'', ''.wav''] then
        Some (w, Inl (Exc SoundFormatNotSupported (''Unsupported filetype: '' @ ext @ [CHR 0x0A])))
      else if ext = ''.flac'' then Some (load_and_build h f opt ''x-flac'' False f w)
      else if ext = ''.spx'' then
        Some (load_and_build h f opt ''x-speex-with-header-byte'' False f w)
      else if \<not> isfile w (FLAC_PATH h) then
        Some (w, Inl (Exc SystemExit
          ''failed to find flac; if it is installed, use option -p path-to-flac''))
      else
        (let cmd = [FLAC_PATH h, ''-8'', ''-f'', ''--totally-silent'', ''-o'', tmp h, f] in
         case convert_loop h cmd (run_flac h cmd w) of
           None \<Rightarrow> None
         | Some w1 \<Rightarrow> Some (load_and_build h f opt ''x-flac'' True (tmp h) w1)))"

section \<open>The threads: \<^verbatim>\<open>run\<close>, \<^verbatim>\<open>stop\<close> and \<^verbatim>\<open>getResponse\<close> interleaved\<close>

text \<open>
  What the threads find around them: the outcome of the \<open>n\<close>-th call of
  \<^verbatim>\<open>urllib2.urlopen\<close> (a response, or an exception), the global \<^verbatim>\<open>gsOptions\<close>
  and, for the caller, the \<^verbatim>\<open>GoogleSpeech\<close> object.
\<close>

datatype outcome = Returned "json option" | Raised pyexc

record env =
  runtime :: pyrt
  urlopen :: "nat \<Rightarrow> outcome"
  options :: options
  self :: gs

text \<open>
  The worker thread is at a statement of \<^verbatim>\<open>run\<close>, named by its line; \<open>L206\<close> and
  \<open>L207\<close> carry the exception bound to \<^verbatim>\<open>ex\<close>. \<open>WReturned\<close>: \<^verbatim>\<open>run\<close> has returned;
  \<open>WRaised\<close>: an exception has left \<^verbatim>\<open>run\<close> and the thread is dead.
\<close>

datatype wpc =
    L195 | L196 | L197 | L198 | L200 | L204 | L206 pyexc | L207 pyexc | L208
  | L209 | L211 | L212 | L213 | L214 | L216 | WReturned | WRaised pyexc

text \<open>
  The calling thread is inside \<^verbatim>\<open>getThread\<close> (from line 293, the thread just
  started) and then \<^verbatim>\<open>getResponse\<close>. \<open>G308\<close>: \<^verbatim>\<open>getResponse\<close> has returned the
  thread object; \<open>GRaised\<close>: it has raised.
\<close>

datatype cpc = G293 | G294 | G295 | G302 | G303 | G304 | G306 | G308 | GRaised pyexc

record sys =
  task :: task
  wpc :: wpc
  cpc :: cpc
  clock :: real
  calls :: nat
  console :: "string list"
  warnings :: "string list"

definition init_sys :: "request \<Rightarrow> real \<Rightarrow> sys" where
  "init_sys req now =
     \<lparr> task = init_task req, wpc = L195, cpc = G293, clock = now, calls = 0,
       console = [], warnings = [] \<rparr>"

text \<open>
  \<^verbatim>\<open>_message\<close>, and \<^verbatim>\<open>_warn\<close> (lines 80 to 82): \<^verbatim>\<open>haveLogging\<close> is true, since
  the module imports \<^verbatim>\<open>logging\<close>.
\<close>

definition message :: "env \<Rightarrow> string \<Rightarrow> sys \<Rightarrow> sys" where
  "message e m s = s\<lparr>console := print_message (options e) m (console s)\<rparr>"

definition warn :: "string \<Rightarrow> sys \<Rightarrow> sys" where
  "warn m s = s\<lparr>warnings := warnings s @ [m]\<rparr>"

text \<open>
  One statement of \<^verbatim>\<open>run\<close> (lines 194 to 216). A call of \<^verbatim>\<open>urlopen\<close> is one step,
  taken when the call comes back; \<^verbatim>\<open>_unpackRaw\<close> is one step.
\<close>

definition worker :: "env \<Rightarrow> sys \<Rightarrow> sys" where
  "worker e s =
     (let t = task s in
      case wpc s of
        L195 \<Rightarrow> s\<lparr>task := t\<lparr>t0 := Some (clock s)\<rparr>, wpc := L196\<rparr>
      | L196 \<Rightarrow> s\<lparr>task := t\<lparr>running := True\<rparr>, wpc := L197\<rparr>
      | L197 \<Rightarrow> s\<lparr>task := t\<lparr>started := True\<rparr>, wpc := L198\<rparr>
      | L198 \<Rightarrow> s\<lparr>task := t\<lparr>duration := Some 0\<rparr>, wpc := L200\<rparr>
      | L200 \<Rightarrow>
          (case urlopen e (calls s) of
             Returned r \<Rightarrow> s\<lparr>task := t\<lparr>raw := Response r\<rparr>, wpc := L209, calls := calls s + 1\<rparr>
           | Raised ex \<Rightarrow> s\<lparr>wpc := L204, calls := calls s + 1\<rparr>)
      | L204 \<Rightarrow>
          (case urlopen e (calls s) of
             Returned r \<Rightarrow> s\<lparr>task := t\<lparr>raw := Response r\<rparr>, wpc := L209, calls := calls s + 1\<rparr>
           | Raised ex \<Rightarrow>
               (if is_StandardError (exc_cls ex) then s\<lparr>wpc := L206 ex, calls := calls s + 1\<rparr>
                else s\<lparr>wpc := WRaised ex, calls := calls s + 1\<rparr>))
      | L206 ex \<Rightarrow> (message e (exc_msg ex) s)\<lparr>wpc := L207 ex\<rparr>
      | L207 ex \<Rightarrow> (warn (exc_msg ex) s)\<lparr>wpc := L208\<rparr>
      | L208 \<Rightarrow> s\<lparr>task := t\<lparr>running := False\<rparr>, wpc := L209\<rparr>
      | L209 \<Rightarrow>
          (case t0 t of
             None \<Rightarrow> s\<lparr>wpc := WRaised (Exc TypeError ''unsupported operand type(s) for -'')\<rparr>
           | Some b \<Rightarrow> s\<lparr>task := t\<lparr>duration := Some (clock s - b)\<rparr>, wpc := L211\<rparr>)
      | L211 \<Rightarrow> (if running t then s\<lparr>wpc := L212\<rparr> else s\<lparr>wpc := L216\<rparr>)
      | L212 \<Rightarrow>
          (case unpackRaw (runtime e) t of
             (t', None) \<Rightarrow> s\<lparr>task := t', wpc := L213\<rparr>
           | (t', Some ex) \<Rightarrow> s\<lparr>task := t', wpc := WRaised ex\<rparr>)
      | L213 \<Rightarrow> s\<lparr>task := t\<lparr>running := False\<rparr>, wpc := L214\<rparr>
      | L214 \<Rightarrow> s\<lparr>task := t\<lparr>timedout := False\<rparr>, wpc := WReturned\<rparr>
      | L216 \<Rightarrow> s\<lparr>task := t\<lparr>timedout := True\<rparr>, wpc := WReturned\<rparr>
      | WReturned \<Rightarrow> s
      | WRaised ex \<Rightarrow> s)"

text \<open>
  One statement of the caller: the end of \<^verbatim>\<open>getThread\<close> (lines 293 to 297), then
  \<^verbatim>\<open>getResponse\<close> (lines 302 to 308). In Python 2 \<^verbatim>\<open>None < x\<close> holds for every
  number \<open>x\<close>, so the loop of line 302 goes on while \<^verbatim>\<open>elapsed()\<close> is \<^verbatim>\<open>None\<close>.
  The sleeps of lines 296 and 303 change nothing; time passes by the clock's own steps.
\<close>

definition caller :: "env \<Rightarrow> sys \<Rightarrow> sys" where
  "caller e s =
     (let t = task s in
      case cpc s of
        G293 \<Rightarrow> (message e ''Sending:,'' s)\<lparr>cpc := G294\<rparr>
      | G294 \<Rightarrow> s\<lparr>task := t\<lparr>filename := Some (self_file (self e))\<rparr>, cpc := G295\<rparr>
      | G295 \<Rightarrow> (if \<not> running t then s else s\<lparr>cpc := G302\<rparr>)
      | G302 \<Rightarrow>
          (case elapsed (clock s) t of
             Inl ex \<Rightarrow> s\<lparr>cpc := GRaised ex\<rparr>
           | Inr None \<Rightarrow> s\<lparr>cpc := G303\<rparr>
           | Inr (Some d) \<Rightarrow>
               (if d < self_timeout (self e) then s\<lparr>cpc := G303\<rparr> else s\<lparr>cpc := G306\<rparr>))
      | G303 \<Rightarrow> s\<lparr>cpc := G304\<rparr>
      | G304 \<Rightarrow> (if \<not> running t then s\<lparr>cpc := G306\<rparr> else s\<lparr>cpc := G302\<rparr>)
      | G306 \<Rightarrow>
          (if running t then s\<lparr>task := t\<lparr>status := Some (JInt 408)\<rparr>, cpc := G308\<rparr>
           else s\<lparr>cpc := G308\<rparr>)
      | G308 \<Rightarrow> s
      | GRaised ex \<Rightarrow> s)"

text \<open>
  What can happen next: the worker or the caller executes a statement, somebody who
  holds the thread object calls \<^verbatim>\<open>stop()\<close>, or the clock moves.
\<close>

datatype action = Worker | Caller | Stop | Tick real

fun step :: "env \<Rightarrow> sys \<Rightarrow> action \<Rightarrow> sys" where
  "step e s Worker = worker e s"
| "step e s Caller = caller e s"
| "step e s Stop = s\<lparr>task := stop (task s)\<rparr>"
| "step e s (Tick d) = s\<lparr>clock := clock s + d\<rparr>"

definition exec :: "env \<Rightarrow> action list \<Rightarrow> sys \<Rightarrow> sys" where
  "exec e acts s = foldl (step e) s acts"

section \<open>The states of a query task\<close>

text \<open>
  The thread object has no state attribute; a state is a combination of its flags.
  Created: \<^verbatim>\<open>run\<close> has not set \<^verbatim>\<open>started\<close>. Running: started, and \<^verbatim>\<open>running\<close> is
  set. The three final states have \<^verbatim>\<open>running\<close> cleared: Succeeded when the response
  has been parsed and \<^verbatim>\<open>timedout\<close> is not set; with \<^verbatim>\<open>timedout\<close> set, TimedOut when a
  response was received and Failed when none was.
\<close>

definition is_Created :: "task \<Rightarrow> bool" where
  "is_Created t = (\<not> started t)"

definition is_Running :: "task \<Rightarrow> bool" where
  "is_Running t = (started t \<and> running t)"

definition is_Succeeded :: "task \<Rightarrow> bool" where
  "is_Succeeded t = (started t \<and> \<not> running t \<and> \<not> timedout t \<and> json t \<noteq> None)"

definition is_TimedOut :: "task \<Rightarrow> bool" where
  "is_TimedOut t = (started t \<and> \<not> running t \<and> timedout t \<and> raw t \<noteq> EmptyStr)"

definition is_Failed :: "task \<Rightarrow> bool" where
  "is_Failed t = (started t \<and> \<not> running t \<and> timedout t \<and> raw t = EmptyStr)"

text \<open>The number of the five states a task is in.\<close>

definition states_in :: "task \<Rightarrow> nat" where
  "states_in t =
     length (filter (\<lambda>p. p t) [is_Created, is_Running, is_Succeeded, is_TimedOut, is_Failed])"

text \<open>
  The combination of flags that is none of the five: started, \<^verbatim>\<open>running\<close> cleared,
  \<^verbatim>\<open>timedout\<close> not set, nothing parsed.
\<close>

definition is_Stopped :: "task \<Rightarrow> bool" where
  "is_Stopped t = (started t \<and> \<not> running t \<and> \<not> timedout t \<and> json t = None)"

text \<open>The fields that \<^verbatim>\<open>_unpackRaw\<close> fills have the values \<^verbatim>\<open>_reset\<close> gave them.\<close>

definition unparsed :: "task \<Rightarrow> bool" where
  "unparsed t =
     (json t = None \<and> word t = [] \<and> words t = [] \<and> confidence t = None \<and>
      detailed t = [] \<and> conf t = None)"

section \<open>Sample inputs\<close>

text \<open>Two responses of the service, the second with a colon in its utterance.\<close>

definition payload_hello :: json where
  "payload_hello =
     JDict [(''status'', JInt 0),
            (''hypotheses'', JList [JDict [(''utterance'', JStr ''hello world''),
                                          (''confidence'', JFloat 0.87)]])]"

definition payload_colon :: json where
  "payload_colon =
     JDict [(''status'', JInt 0),
            (''hypotheses'', JList [JDict [(''utterance'', JStr ''meet at 10:30''),
                                          (''confidence'', JFloat 0.87)]])]"

text \<open>
  A runtime for the samples: its \<^verbatim>\<open>str\<close> is that of the one float they contain,
  containers print as an ellipsis, \<^verbatim>\<open>float\<close> of an integer is exact and no string is
  a number.
\<close>

definition sample_rt :: pyrt where
  "sample_rt =
     \<lparr> str_float = (\<lambda>x. ''0.87''), str_container = (\<lambda>v. ''...''),
       float_of_int = (\<lambda>i. Inr (of_int i)),
       float_of_str = (\<lambda>s. Inl (Exc ValueError ''could not convert string to float'')) \<rparr>"

definition sample_options :: options where
  "sample_options =
     \<lparr> lang = ''en-US'', samplingrate = 16000, timeout = 10,
       flac = ''/usr/local/bin/flac'', pro_filter = 2, quiet = True \<rparr>"

definition sample_request :: request where
  "sample_request =
     \<lparr> url = ''https://www.google.com/speech-api/v1/recognize?xjerr=1&client=psychopy2&lang=en-US&pfilter=2&maxresults=5'',
       audio = ''fLaC'',
       header = [(''Content-Type'', ''audio/x-flac; rate=16000''),
                 (''User-Agent'',
                  ''PsychoPy: open-source Psychology & Neuroscience tools; www.psychopy.org'')] \<rparr>"

text \<open>An environment with a timeout of one second, given what the network does.\<close>

definition sample_env :: "(nat \<Rightarrow> outcome) \<Rightarrow> env" where
  "sample_env net =
     \<lparr> runtime = sample_rt, urlopen = net, options = sample_options,
       self = \<lparr> self_timeout = 1, self_file = ''clip.flac'', self_request = sample_request \<rparr> \<rparr>"

text \<open>
  A machine with an encoder that first writes its output on run \<open>k\<close>, or never, and a
  file system with the encoder and three sound files.
\<close>

definition sample_host :: "nat option \<Rightarrow> host" where
  "sample_host k =
     \<lparr> FLAC_PATH = ''/usr/local/bin/flac'', gsOptions = sample_options, seps = ''/'',
       tmp = ''tmp_guess1333900000.000000.flac'',
       flac_run = (\<lambda>n. ([], if Some n = k then Some ''fLaC'' else None)) \<rparr>"

definition sample_world :: world where
  "sample_world =
     \<lparr> files = (\<lambda>f. if f = ''/usr/local/bin/flac'' then File ''ELF''
                    else if f = ''clip.flac'' then File ''fLaC''
                    else if f = ''clip.wav'' then File ''RIFF''
                    else if f = ''clip.mp3'' then File ''ID3''
                    else Missing),
       shell_log = [], out = [], warned = [], sleeps = 0, opened = [], built = [] \<rparr>"

section \<open>The response parser\<close>

lemmas unpack_eval =
  unpackRaw_def json_load_def store_conf_def report_line_def ljust10_def startswith_def
  lstrip_def is_space_def str_int_def str_nat.simps[of 0] digit_char_def eval_nat_numeral

text \<open>
  The round trip of the sample response: one utterance, its confidence, status 0.
\<close>

lemma unpackRaw_payload_hello:
  "unpackRaw rt (t\<lparr>raw := Response (Some payload_hello)\<rparr>) =
     (t\<lparr>raw := Response (Some payload_hello), json := Some payload_hello,
        status := Some (JInt 0), confidence := Some 0.87, conf := Some 0.87,
        detailed := ''utterance  : hello world'' @ [CHR 0x0A] @ ''confidence : '' @
                    str_float rt 0.87 @ [CHR 0x0A] @ ''status     : 0'',
        words := [''hello world''], word := ''hello world''\<rparr>, None)"
  by (simp add: unpack_eval payload_hello_def)

lemma unpackRaw_payload_colon_eval:
  "words (fst (unpackRaw rt (t\<lparr>raw := Response (Some payload_colon)\<rparr>))) = [''meet at 10''] \<and>
   word (fst (unpackRaw rt (t\<lparr>raw := Response (Some payload_colon)\<rparr>))) = ''meet at 10'' \<and>
   snd (unpackRaw rt (t\<lparr>raw := Response (Some payload_colon)\<rparr>)) = None"
  by (simp add: unpack_eval payload_colon_def)

text \<open>
  Claim C4. The words are meant to be the utterance values in the order of the
  hypotheses, and the first of them is the word. The parser reads them back from the
  report lines, so for the response whose utterance is \<^verbatim>\<open>meet at 10:30\<close> the only
  word is \<^verbatim>\<open>meet at 10\<close>, not the utterance; no exception is raised.
\<close>

theorem unpackRaw_payload_colon:
  "words (fst (unpackRaw rt (t\<lparr>raw := Response (Some payload_colon)\<rparr>))) = [''meet at 10''] \<and>
   word (fst (unpackRaw rt (t\<lparr>raw := Response (Some payload_colon)\<rparr>))) = ''meet at 10'' \<and>
   snd (unpackRaw rt (t\<lparr>raw := Response (Some payload_colon)\<rparr>)) = None"
  using unpackRaw_payload_colon_eval[of rt t] by simp

subsection \<open>Words are cut at the first colon\<close>

text \<open>
  The utterance of a hypothesis; a hypothesis as the service sends it: an object with
  an utterance that is a string and with no other key that begins with
  \<^verbatim>\<open>utterance\<close>.
\<close>

definition utterance_of :: "(string \<times> json) list \<Rightarrow> string" where
  "utterance_of h = (case map_of h ''utterance'' of Some (JStr u) \<Rightarrow> u | _ \<Rightarrow> [])"

text \<open>What line 188 extracts from a report line that has a colon, and from an utterance.\<close>

definition cut_colon :: "string \<Rightarrow> string" where
  "cut_colon u = lstrip (takeWhile (\<lambda>c. c \<noteq> CHR '':'') u)"

definition field_line :: "pyrt \<Rightarrow> string \<times> json \<Rightarrow> string" where
  "field_line rt kv = report_line rt (JStr (fst kv)) (snd kv)"

definition entry :: "string \<Rightarrow> string" where
  "entry l = lstrip (takeWhile (\<lambda>x. x \<noteq> CHR '':'') (tl (dropWhile (\<lambda>x. x \<noteq> CHR '':'') l)))"

definition plain_hypothesis :: "(string \<times> json) list \<Rightarrow> bool" where
  "plain_hypothesis h =
     (distinct (map fst h) \<and>
      (\<forall>k \<in> set (map fst h). startswith k ''utterance'' \<longrightarrow> k = ''utterance'') \<and>
      (case map_of h ''utterance'' of Some (JStr u) \<Rightarrow> True | _ \<Rightarrow> False))"

lemma split_on_hd: "split_on c l \<noteq> [] \<and> hd (split_on c l) = takeWhile (\<lambda>x. x \<noteq> c) l"
  by (induction l) (auto split: list.splits)

lemma split_on_at: "c \<in> set l \<Longrightarrow>
  split_on c l = takeWhile (\<lambda>x. x \<noteq> c) l # split_on c (tl (dropWhile (\<lambda>x. x \<noteq> c) l))"
  by (induction l) (auto split: list.splits)

lemma split_on_two:
  assumes "c \<in> set l"
  shows "\<exists>p0 ps. split_on c l = p0 # takeWhile (\<lambda>x. x \<noteq> c) (tl (dropWhile (\<lambda>x. x \<noteq> c) l)) # ps"
proof -
  let ?r = "split_on c (tl (dropWhile (\<lambda>x. x \<noteq> c) l))"
  from split_on_hd[of c "tl (dropWhile (\<lambda>x. x \<noteq> c) l)"]
  have "?r \<noteq> []" "hd ?r = takeWhile (\<lambda>x. x \<noteq> c) (tl (dropWhile (\<lambda>x. x \<noteq> c) l))"
    by simp_all
  then have "?r = takeWhile (\<lambda>x. x \<noteq> c) (tl (dropWhile (\<lambda>x. x \<noteq> c) l)) # tl ?r"
    by (metis list.collapse)
  with split_on_at[OF assms] show ?thesis by metis
qed

lemma words_of_entries:
  "\<forall>l \<in> set ls. CHR '':'' \<in> set l \<Longrightarrow>
   words_of ls = Inr (map entry (filter (\<lambda>l. startswith l ''utterance'') ls))"
proof (induction ls)
  case Nil
  then show ?case by simp
next
  case (Cons l ls)
  then have "CHR '':'' \<in> set l" by simp
  from split_on_two[OF this] obtain p0 ps where
    "split_on CHR '':'' l = p0 # takeWhile (\<lambda>x. x \<noteq> CHR '':'') (tl (dropWhile (\<lambda>x. x \<noteq> CHR '':'') l)) # ps"
    by blast
  with Cons show ?case by (simp add: entry_def)
qed

lemma colon_in_line: "CHR '':'' \<in> set (report_line rt k v)"
  by (simp add: report_line_def)

lemma utterance_no_space: "i < 9 \<Longrightarrow> ''utterance'' ! i \<noteq> CHR '' ''"
proof -
  assume "i < 9"
  then have "i \<in> {0, 1, 2, 3, 4, 5, 6, 7, 8}" by auto
  then show ?thesis by auto
qed

lemma startswith_line:
  "startswith (report_line rt (JStr k) v) ''utterance'' = startswith k ''utterance''"
proof (cases "9 \<le> length k")
  case True
  then show ?thesis by (simp add: startswith_def report_line_def ljust10_def)
next
  case False
  then have len: "length k < 9" by simp
  let ?line = "report_line rt (JStr k) v"
  have nth: "?line ! length k = CHR '' ''"
    using len by (simp add: report_line_def ljust10_def nth_append)
  have "take 9 ?line \<noteq> ''utterance''"
  proof
    assume eq: "take 9 ?line = ''utterance''"
    have "take 9 ?line ! length k = ?line ! length k" using len by simp
    with eq nth have "''utterance'' ! length k = CHR '' ''" by simp
    with utterance_no_space[OF len] show False by simp
  qed
  moreover have "take 9 k \<noteq> ''utterance''"
  proof
    assume "take 9 k = ''utterance''"
    then have "length (take 9 k) = 9" by simp
    with len show False by simp
  qed
  moreover have "length ''utterance'' = 9" by simp
  ultimately show ?thesis unfolding startswith_def by (simp only:)
qed

lemma entry_utterance:
  "entry (report_line rt (JStr ''utterance'') (JStr u)) = cut_colon u"
  by (simp add: entry_def report_line_def ljust10_def cut_colon_def lstrip_def is_space_def eval_nat_numeral)


lemma getitem_dict:
  "distinct (map fst h) \<Longrightarrow> kv \<in> set h \<Longrightarrow> map_of h (fst kv) = Some (snd kv)"
  by (cases kv) simp

lemma hyp_fields_report:
  "distinct (map fst h) \<Longrightarrow> set ks \<subseteq> set h \<Longrightarrow>
   hyp_fields rt (JDict h) (map (\<lambda>kv. JStr (fst kv)) ks) (rep, cf) = ((rep', cf'), None) \<Longrightarrow>
   rep' = rep @ map (field_line rt) ks"
proof (induction ks arbitrary: rep cf)
  case Nil
  then show ?case by simp
next
  case (Cons kv ks)
  from Cons.prems have g: "map_of h (fst kv) = Some (snd kv)"
    by (intro getitem_dict) auto
  from Cons.prems(3) obtain cf1 where
    "hyp_fields rt (JDict h) (map (\<lambda>kv. JStr (fst kv)) ks) (rep @ [field_line rt kv], cf1) = ((rep', cf'), None)"
    by (auto simp: g Let_def field_line_def split: if_splits sum.splits)
  from Cons.IH[OF Cons.prems(1) _ this] Cons.prems(2) show ?case by simp
qed

lemma hyp_loop_report:
  "\<forall>h \<in> set hs. distinct (map fst h) \<Longrightarrow>
   hyp_loop rt (map JDict hs) (rep, cf) = ((rep', cf'), None) \<Longrightarrow>
   rep' = rep @ concat (map (map (field_line rt)) hs)"
proof (induction hs arbitrary: rep cf)
  case Nil
  then show ?case by simp
next
  case (Cons h hs)
  from Cons.prems(2) obtain rep1 cf1 where
    a: "hyp_fields rt (JDict h) (map (\<lambda>kv. JStr (fst kv)) h) (rep, cf) = ((rep1, cf1), None)" and
    b: "hyp_loop rt (map JDict hs) (rep1, cf1) = ((rep', cf'), None)"
    by (auto split: prod.splits option.splits)
  from Cons.prems(1) have "distinct (map fst h)" by simp
  from hyp_fields_report[OF this _ a] have "rep1 = rep @ map (field_line rt) h" by simp
  moreover from Cons.IH[OF _ b] Cons.prems(1) have "rep' = rep1 @ concat (map (map (field_line rt)) hs)"
    by simp
  ultimately show ?case by simp
qed

lemma top_fields_report:
  "distinct (map fst js) \<Longrightarrow> set ks \<subseteq> set js \<Longrightarrow>
   top_fields rt (JDict js) (map (\<lambda>kv. JStr (fst kv)) ks) rep = (rep', None) \<Longrightarrow>
   rep' = rep @ map (field_line rt) (filter (\<lambda>kv. fst kv \<noteq> ''hypotheses'') ks)"
proof (induction ks arbitrary: rep)
  case Nil
  then show ?case by simp
next
  case (Cons kv ks)
  from Cons.prems have g: "map_of js (fst kv) = Some (snd kv)"
    by (intro getitem_dict) auto
  show ?case
  proof (cases "fst kv = ''hypotheses''")
    case True
    with Cons.prems(3) have "top_fields rt (JDict js) (map (\<lambda>kv. JStr (fst kv)) ks) rep = (rep', None)"
      by simp
    from Cons.IH[OF Cons.prems(1) _ this] Cons.prems(2) True show ?thesis by simp
  next
    case False
    with Cons.prems(3) have
      "top_fields rt (JDict js) (map (\<lambda>kv. JStr (fst kv)) ks) (rep @ [field_line rt kv]) = (rep', None)"
      by (simp add: g field_line_def)
    from Cons.IH[OF Cons.prems(1) _ this] Cons.prems(2) False show ?thesis by simp
  qed
qed

lemma filter_key:
  "distinct (map fst h) \<Longrightarrow> map_of h k = Some v \<Longrightarrow> filter (\<lambda>kv. fst kv = k) h = [(k, v)]"
proof (induction h)
  case Nil
  then show ?case by simp
next
  case (Cons a h)
  show ?case
  proof (cases "fst a = k")
    case True
    with Cons.prems have "a = (k, v)" by (cases a) simp
    moreover have "filter (\<lambda>kv. fst kv = k) h = []"
    proof -
      from True Cons.prems(1) have nk: "k \<notin> fst ` set h" by simp
      have "\<forall>x \<in> set h. fst x \<noteq> k"
      proof (intro ballI notI)
        fix x assume "x \<in> set h" "fst x = k"
        then have "k \<in> fst ` set h" by (metis imageI)
        with nk show False by contradiction
      qed
      then show ?thesis by (simp add: filter_empty_conv)
    qed
    ultimately show ?thesis by simp
  next
    case False
    with Cons show ?thesis by (cases a) auto
  qed
qed

lemma startswith_field: "startswith (field_line rt kv) ''utterance'' = startswith (fst kv) ''utterance''"
  by (simp add: field_line_def startswith_line)

lemma hyp_entries:
  assumes "distinct (map fst h)"
    and "\<forall>k \<in> fst ` set h. startswith k ''utterance'' \<longrightarrow> k = ''utterance''"
    and "map_of h ''utterance'' = Some (JStr u)"
  shows "map entry (filter (\<lambda>l. startswith l ''utterance'') (map (field_line rt) h)) = [cut_colon u]"
proof -
  have sw: "startswith ''utterance'' ''utterance''" by (simp add: startswith_def)
  have "filter (\<lambda>kv. startswith (field_line rt kv) ''utterance'') h = filter (\<lambda>kv. fst kv = ''utterance'') h"
    using assms(2) sw by (intro filter_cong) (auto simp: startswith_field)
  also have "\<dots> = [(''utterance'', JStr u)]" by (rule filter_key[OF assms(1,3)])
  finally show ?thesis
    by (simp add: filter_map comp_def field_line_def entry_utterance)
qed



lemma unpackRaw_NoneE:
  assumes "raw t = Response (Some (JDict js))"
    and "map_of js ''hypotheses'' = Some (JList us)"
    and "snd (unpackRaw rt t) = None"
  obtains report cf report' ws where
    "hyp_loop rt us ([], None) = ((report, cf), None)"
    "top_fields rt (JDict js) (map (\<lambda>kv. JStr (fst kv)) js) report = (report', None)"
    "words_of report' = Inr ws"
    "words (fst (unpackRaw rt t)) = ws"
    "word (fst (unpackRaw rt t)) = (if length ws \<noteq> 0 then hd ws else [])"
    "detailed (fst (unpackRaw rt t)) = join_lines report'"
  using assms(3) unfolding unpackRaw_def
  by (auto simp: assms(1,2) json_load_def Let_def store_conf_def
           split: sum.splits prod.splits option.splits)

lemma plain_entries:
  "\<forall>h \<in> set hs. plain_hypothesis h \<Longrightarrow>
   map entry (filter (\<lambda>l. startswith l ''utterance'') (concat (map (map (field_line rt)) hs))) =
   map (\<lambda>h. cut_colon (utterance_of h)) hs"
proof (induction hs)
  case Nil
  then show ?case by simp
next
  case (Cons h hs)
  from Cons.prems have ph: "plain_hypothesis h" by simp
  then obtain u where u: "map_of h ''utterance'' = Some (JStr u)"
    by (auto simp: plain_hypothesis_def split: option.splits json.splits)
  from ph have "map entry (filter (\<lambda>l. startswith l ''utterance'') (map (field_line rt) h)) = [cut_colon u]"
    by (intro hyp_entries) (auto simp: plain_hypothesis_def u)
  moreover from u have "utterance_of h = u" by (simp add: utterance_of_def)
  ultimately show ?case using Cons by simp
qed

lemma top_entries:
  "\<forall>k \<in> set (map fst js). \<not> startswith k ''utterance'' \<Longrightarrow>
   filter (\<lambda>l. startswith l ''utterance'') (map (field_line rt) (filter P js)) = []"
  by (auto simp: filter_empty_conv startswith_field)

lemma join_lines_has:
  "l \<in> set ls \<Longrightarrow> \<exists>a b. join_lines ls = a @ l @ b"
proof (induction ls rule: join_lines.induct)
  case 1
  then show ?case by simp
next
  case (2 x)
  then have "join_lines [x] = [] @ l @ []" by simp
  then show ?case by blast
next
  case (3 x y ys)
  show ?case
  proof (cases "l = x")
    case True
    then have "join_lines (x # y # ys) = [] @ l @ ([CHR 0x0A] @ join_lines (y # ys))" by simp
    then show ?thesis by blast
  next
    case False
    with 3 obtain a b where "join_lines (y # ys) = a @ l @ b" by auto
    then have "join_lines (x # y # ys) = (x @ [CHR 0x0A] @ a) @ l @ b" by simp
    then show ?thesis by blast
  qed
qed

text \<open>
  Claim C10. Let the response be an object whose hypotheses are objects as the
  service sends them and whose own keys do not begin with \<^verbatim>\<open>utterance\<close>, and let
  it parse without an exception. Then the words are, in the order of the hypotheses,
  the utterances cut before their first colon (and without leading whitespace, which
  \<^verbatim>\<open>lstrip\<close> removes), the word is the first of them, and every utterance stands in
  full in the detailed report.
\<close>

theorem words_cut_at_colon:
  assumes "raw t = Response (Some (JDict js))"
    and "map_of js ''hypotheses'' = Some (JList (map JDict hs))"
    and "distinct (map fst js)"
    and "\<forall>k \<in> set (map fst js). \<not> startswith k ''utterance''"
    and "\<forall>h \<in> set hs. plain_hypothesis h"
    and "snd (unpackRaw rt t) = None"
  shows "words (fst (unpackRaw rt t)) =
           map (\<lambda>h. lstrip (takeWhile (\<lambda>c. c \<noteq> CHR '':'') (utterance_of h))) hs \<and>
         word (fst (unpackRaw rt t)) =
           (case hs of [] \<Rightarrow> [] | h # _ \<Rightarrow> lstrip (takeWhile (\<lambda>c. c \<noteq> CHR '':'') (utterance_of h))) \<and>
         (\<forall>h \<in> set hs. \<exists>a b. detailed (fst (unpackRaw rt t)) =
                                a @ (''utterance  : '' @ utterance_of h) @ b)"
proof -
  from assms(1,2,6) obtain report cf report' ws where r:
    "hyp_loop rt (map JDict hs) ([], None) = ((report, cf), None)"
    "top_fields rt (JDict js) (map (\<lambda>kv. JStr (fst kv)) js) report = (report', None)"
    "words_of report' = Inr ws"
    "words (fst (unpackRaw rt t)) = ws"
    "word (fst (unpackRaw rt t)) = (if length ws \<noteq> 0 then hd ws else [])"
    "detailed (fst (unpackRaw rt t)) = join_lines report'"
    by (rule unpackRaw_NoneE)
  from assms(5) have dist: "\<forall>h \<in> set hs. distinct (map fst h)"
    by (simp add: plain_hypothesis_def)
  from hyp_loop_report[OF dist r(1)] have rep: "report = concat (map (map (field_line rt)) hs)"
    by simp
  from top_fields_report[OF assms(3) _ r(2)] have rep':
    "report' = report @ map (field_line rt) (filter (\<lambda>kv. fst kv \<noteq> ''hypotheses'') js)"
    by simp
  have "\<forall>l \<in> set report'. CHR '':'' \<in> set l"
    unfolding rep rep' by (auto simp: field_line_def colon_in_line)
  from words_of_entries[OF this] r(3)
  have "ws = map entry (filter (\<lambda>l. startswith l ''utterance'') report')" by simp
  also have "\<dots> = map (\<lambda>h. cut_colon (utterance_of h)) hs"
    unfolding rep rep' using plain_entries[OF assms(5), of rt] top_entries[OF assms(4), of rt]
    by simp
  finally have ws: "ws = map (\<lambda>h. cut_colon (utterance_of h)) hs" .
  have 1: "words (fst (unpackRaw rt t)) =
        map (\<lambda>h. lstrip (takeWhile (\<lambda>c. c \<noteq> CHR '':'') (utterance_of h))) hs"
    using r(4) ws by (simp add: cut_colon_def)
  have 2: "word (fst (unpackRaw rt t)) =
        (case hs of [] \<Rightarrow> [] | h # _ \<Rightarrow> lstrip (takeWhile (\<lambda>c. c \<noteq> CHR '':'') (utterance_of h)))"
    using r(5) ws by (simp add: cut_colon_def split: list.splits)
  have 3: "\<forall>h \<in> set hs. \<exists>a b. detailed (fst (unpackRaw rt t)) =
                                a @ (''utterance  : '' @ utterance_of h) @ b"
  proof
    fix h assume h: "h \<in> set hs"
    with assms(5) have ph: "plain_hypothesis h" by simp
    then obtain u where u: "map_of h ''utterance'' = Some (JStr u)"
      by (auto simp: plain_hypothesis_def split: option.splits json.splits)
    then have in_h: "(''utterance'', JStr u) \<in> set h" by (rule map_of_SomeD)
    have fl: "field_line rt (''utterance'', JStr u) = ''utterance  : '' @ u"
      by (simp add: field_line_def report_line_def ljust10_def eval_nat_numeral)
    from in_h have "field_line rt (''utterance'', JStr u) \<in> set (map (field_line rt) h)"
      by (metis imageI set_map)
    with h have "''utterance  : '' @ u \<in> set report'"
      unfolding rep rep' fl by auto
    from join_lines_has[OF this] r(6) u show
      "\<exists>a b. detailed (fst (unpackRaw rt t)) = a @ (''utterance  : '' @ utterance_of h) @ b"
      by (simp add: utterance_of_def)
  qed
  from 1 2 3 show ?thesis by blast
qed

theorem words_cut_at_colon_witness:
  "plain_hypothesis [(''utterance'', JStr ''meet at 10:30''), (''confidence'', JFloat 0.87)] \<and>
   snd (unpackRaw sample_rt ((init_task sample_request)\<lparr>raw := Response (Some payload_colon)\<rparr>)) = None \<and>
   words (fst (unpackRaw sample_rt ((init_task sample_request)\<lparr>raw := Response (Some payload_colon)\<rparr>))) =
     [''meet at 10''] \<and>
   word (fst (unpackRaw sample_rt ((init_task sample_request)\<lparr>raw := Response (Some payload_colon)\<rparr>))) =
     ''meet at 10'' \<and>
   (\<exists>a b. detailed (fst (unpackRaw sample_rt
              ((init_task sample_request)\<lparr>raw := Response (Some payload_colon)\<rparr>))) =
           a @ ''utterance  : meet at 10:30'' @ b)"
proof -
  let ?t = "(init_task sample_request)\<lparr>raw := Response (Some payload_colon)\<rparr>"
  let ?h = "[(''utterance'', JStr ''meet at 10:30''), (''confidence'', JFloat 0.87)]"
  let ?js = "[(''status'', JInt 0), (''hypotheses'', JList (map JDict [?h]))]"
  have ph: "plain_hypothesis ?h"
    by (simp add: plain_hypothesis_def startswith_def)
  have ok: "snd (unpackRaw sample_rt ?t) = None"
    using unpackRaw_payload_colon_eval[of sample_rt "init_task sample_request"] by simp
  have a: "raw ?t = Response (Some (JDict ?js))" by (simp add: payload_colon_def)
  have b: "map_of ?js ''hypotheses'' = Some (JList (map JDict [?h]))" by simp
  have c: "distinct (map fst ?js)" by simp
  have d: "\<forall>k \<in> set (map fst ?js). \<not> startswith k ''utterance''" by (simp add: startswith_def)
  have e: "\<forall>h \<in> set [?h]. plain_hypothesis h" using ph by simp
  from words_cut_at_colon[OF a b c d e ok] ph ok show ?thesis
    by (simp add: utterance_of_def lstrip_def is_space_def)
qed

section \<open>The request builder\<close>

lemma str_int_8000: "str_int 8000 = ''8000''"
  by (simp add: str_int_def str_nat.simps[of 8000] str_nat.simps[of 800] str_nat.simps[of 80]
        str_nat.simps[of 8] digit_char_def)

lemma str_int_16000: "str_int 16000 = ''16000''"
  by (simp add: str_int_def str_nat.simps[of 16000] str_nat.simps[of 1600] str_nat.simps[of 160]
        str_nat.simps[of 16] str_nat.simps[of "Suc 0"] digit_char_def)

text \<open>
  Claim C8. The constructor looks for the file first: a missing file is an
  \<^verbatim>\<open>IOError\<close> whatever its extension. For a file that exists and whose extension is
  none of \<^verbatim>\<open>.flac\<close>, \<^verbatim>\<open>.spx\<close>, \<^verbatim>\<open>.wav\<close> it raises \<^verbatim>\<open>SoundFormatNotSupported\<close>
  and the world is as before: no encoder was run, no file opened, no request built.
\<close>

theorem init_unsupported_format:
  "(\<not> isfile w f \<longrightarrow>
      GoogleSpeech_init h f opt w = Some (w, Inl (Exc IOError (''Cannot find file: '' @ f)))) \<and>
   (isfile w f \<and> splitext_ext (seps h) f \<notin> {''.flac'', ''.spx'', ''.wav''} \<longrightarrow>
      GoogleSpeech_init h f opt w =
        Some (w, Inl (Exc SoundFormatNotSupported
                       (''Unsupported filetype: '' @ splitext_ext (seps h) f @ [CHR 0x0A]))))"
  by (simp add: GoogleSpeech_init_def Let_def)

theorem init_unsupported_format_witness:
  "\<not> isfile sample_world ''gone.mp3'' \<and>
   GoogleSpeech_init (sample_host None) ''gone.mp3'' sample_options sample_world =
     Some (sample_world, Inl (Exc IOError ''Cannot find file: gone.mp3'')) \<and>
   isfile sample_world ''clip.mp3'' \<and>
   splitext_ext (seps (sample_host None)) ''clip.mp3'' \<notin> {''.flac'', ''.spx'', ''.wav''} \<and>
   GoogleSpeech_init (sample_host None) ''clip.mp3'' sample_options sample_world =
     Some (sample_world,
           Inl (Exc SoundFormatNotSupported (''Unsupported filetype: .mp3'' @ [CHR 0x0A])))"
  using init_unsupported_format[of sample_world "''gone.mp3''" "sample_host None" sample_options]
        init_unsupported_format[of sample_world "''clip.mp3''" "sample_host None" sample_options]
  by (simp add: isfile_def sample_world_def sample_host_def splitext_ext_def)

lemma load_header:
  "load_and_build h orig opt ft conv f w = (w', Inr g) \<Longrightarrow>
   map_of (header (self_request g)) ''Content-Type'' = Some (''audio/'' @ ft @ ''; rate='' @ str_int (samplingrate opt))"
  by (auto simp: load_and_build_def Let_def split: fstat.splits)

lemma parse_rate: "samplingrate (parse_options cli) = (if samplingrate cli = 8000 \<or> samplingrate cli = 16000 then samplingrate cli else 16000)"
  by (auto simp: parse_options_def Let_def)

lemma str_rate: "str_int (samplingrate (parse_options cli)) = (if samplingrate cli = 8000 then ''8000'' else ''16000'')"
  by (simp add: parse_rate str_int_8000 str_int_16000)

text \<open>
  Claim C9. For the options that \<^verbatim>\<open>_parse_options\<close> returns, the
  \<^verbatim>\<open>Content-Type\<close> header of the request that the constructor builds carries the
  requested rate when that is 8000 or 16000 and 16000 for any other requested rate.
  (The constructor itself writes \<^verbatim>\<open>opt.samplingrate\<close> as it finds it; the rate is
  normalised where the options are parsed, line 117.)
\<close>

theorem content_type_rate:
  "GoogleSpeech_init h f (parse_options cli) w = Some (w', Inr g) \<Longrightarrow>
   map_of (header (self_request g)) ''Content-Type'' =
     Some (''audio/'' @
           (if splitext_ext (seps h) f = ''.spx'' then ''x-speex-with-header-byte'' else ''x-flac'') @
           ''; rate='' @ (if samplingrate cli = 8000 then ''8000'' else ''16000''))"
  unfolding GoogleSpeech_init_def Let_def
  by (auto split: if_splits option.splits dest!: load_header simp: str_rate)

theorem content_type_rate_witness:
  "\<exists>w' g. GoogleSpeech_init (sample_host None) ''clip.flac''
             (parse_options (sample_options\<lparr>samplingrate := 44100\<rparr>)) sample_world = Some (w', Inr g) \<and>
          map_of (header (self_request g)) ''Content-Type'' = Some ''audio/x-flac; rate=16000''"
proof -
  have "\<exists>w' g. GoogleSpeech_init (sample_host None) ''clip.flac''
             (parse_options (sample_options\<lparr>samplingrate := 44100\<rparr>)) sample_world = Some (w', Inr g)"
    by (simp add: GoogleSpeech_init_def Let_def sample_host_def sample_world_def isfile_def
          splitext_ext_def load_and_build_def wmessage_def eval_nat_numeral)
  then obtain w' g where a: "GoogleSpeech_init (sample_host None) ''clip.flac''
             (parse_options (sample_options\<lparr>samplingrate := 44100\<rparr>)) sample_world = Some (w', Inr g)"
    by blast
  from content_type_rate[OF a] have
    "map_of (header (self_request g)) ''Content-Type'' = Some ''audio/x-flac; rate=16000''"
    by (simp add: sample_host_def sample_options_def splitext_ext_def)
  with a show ?thesis by blast
qed

lemma wmessage_files [simp]: "files (wmessage h m w) = files w"
  by (simp add: wmessage_def)

lemma wmessage_shell [simp]: "shell_log (wmessage h m w) = shell_log w"
  by (simp add: wmessage_def)

lemma wmessage_isfile [simp]: "isfile (wmessage h m w) f = isfile w f"
  by (simp add: isfile_def)

lemma run_flac_shell [simp]: "shell_log (run_flac h cmd w) = shell_log w @ [cmd]"
  by (simp add: run_flac_def Let_def split: prod.splits)

lemma run_flac_files:
  "files (run_flac h cmd w) =
     (case snd (flac_run h (length (shell_log w))) of
        None \<Rightarrow> files w | Some b \<Rightarrow> (files w)(tmp h := File b))"
  by (simp add: run_flac_def Let_def split: prod.splits option.splits)

lemma run_flac_isfile_tmp:
  "isfile (run_flac h cmd w) (tmp h) = (isfile w (tmp h) \<or> snd (flac_run h (length (shell_log w))) \<noteq> None)"
  by (auto simp: isfile_def run_flac_files split: option.splits)

lemma convert_loop_Some_imp:
  assumes "convert_loop h cmd w = Some w'"
  shows "isfile w (tmp h) \<or> (\<exists>n \<ge> length (shell_log w). snd (flac_run h n) \<noteq> None)"
proof (rule convert_loop.raw_induct
    [where P = "\<lambda>h cmd w y. isfile w (tmp h) \<or> (\<exists>n \<ge> length (shell_log w). snd (flac_run h n) \<noteq> None)",
     OF _ assms])
  fix loop :: "host \<Rightarrow> string list \<Rightarrow> world \<Rightarrow> world option" and h cmd w y
  assume IH: "\<And>h cmd w y. loop h cmd w = Some y \<Longrightarrow>
      isfile w (tmp h) \<or> (\<exists>n \<ge> length (shell_log w). snd (flac_run h n) \<noteq> None)"
    and eq: "(if \<not> isfile w (tmp h)
              then loop h cmd (run_flac h cmd (wmessage h ''Failed to convert to tmp.flac; trying again'' w))
              else Some w) = Some y"
  show "isfile w (tmp h) \<or> (\<exists>n \<ge> length (shell_log w). snd (flac_run h n) \<noteq> None)"
  proof (cases "isfile w (tmp h)")
    case True
    then show ?thesis by simp
  next
    case False
    let ?w1 = "run_flac h cmd (wmessage h ''Failed to convert to tmp.flac; trying again'' w)"
    from eq False have "loop h cmd ?w1 = Some y" by simp
    from IH[OF this]
    have "isfile ?w1 (tmp h) \<or> (\<exists>n\<ge>length (shell_log ?w1). snd (flac_run h n) \<noteq> None)" .
    then show ?thesis
    proof
      assume "isfile ?w1 (tmp h)"
      with False have "snd (flac_run h (length (shell_log w))) \<noteq> None"
        by (simp add: run_flac_isfile_tmp)
      then show ?thesis by blast
    next
      assume "\<exists>n\<ge>length (shell_log ?w1). snd (flac_run h n) \<noteq> None"
      then obtain n where n: "Suc (length (shell_log w)) \<le> n" "snd (flac_run h n) \<noteq> None"
        by auto
      then have "length (shell_log w) \<le> n" by simp
      with n show ?thesis by blast
    qed
  qed
qed

lemma convert_loop_never:
  assumes "\<not> isfile w (tmp h)" and "\<forall>n \<ge> length (shell_log w). snd (flac_run h n) = None"
  shows "convert_loop h cmd w = None"
proof (cases "convert_loop h cmd w")
  case None
  then show ?thesis .
next
  case (Some w')
  from convert_loop_Some_imp[OF this] assms show ?thesis by auto
qed

lemma convert_loop_after:
  "\<not> isfile w (tmp h) \<Longrightarrow>
   \<forall>j < k. snd (flac_run h (length (shell_log w) + j)) = None \<Longrightarrow>
   snd (flac_run h (length (shell_log w) + k)) = Some b \<Longrightarrow>
   \<exists>w'. convert_loop h cmd (run_flac h cmd w) = Some w' \<and>
        length (shell_log w') = length (shell_log w) + k + 1 \<and>
        files w' = (files w)(tmp h := File b)"
proof (induction k arbitrary: w)
  case 0
  let ?w1 = "run_flac h cmd w"
  from 0 have "isfile ?w1 (tmp h)" by (simp add: run_flac_isfile_tmp)
  then have "convert_loop h cmd ?w1 = Some ?w1" by (subst convert_loop.simps) simp
  moreover from 0 have "files ?w1 = (files w)(tmp h := File b)" by (simp add: run_flac_files)
  ultimately show ?case by (simp add: fun_eq_iff)
next
  case (Suc k)
  let ?w1 = "run_flac h cmd w"
  let ?w2 = "wmessage h ''Failed to convert to tmp.flac; trying again'' ?w1"
  from Suc.prems have first: "snd (flac_run h (length (shell_log w))) = None"
    by (metis add.right_neutral zero_less_Suc)
  with Suc.prems have nf: "\<not> isfile ?w1 (tmp h)" by (simp add: run_flac_isfile_tmp)
  from first have fl: "files ?w1 = files w" by (simp add: run_flac_files)
  have a: "\<not> isfile ?w2 (tmp h)" using nf by simp
  have b: "\<forall>j<k. snd (flac_run h (length (shell_log ?w2) + j)) = None"
    using Suc.prems(2) by auto
  have c: "snd (flac_run h (length (shell_log ?w2) + k)) = Some b"
    using Suc.prems(3) by simp
  from Suc.IH[OF a b c] obtain w' where w':
    "convert_loop h cmd (run_flac h cmd ?w2) = Some w'"
    "length (shell_log w') = length (shell_log ?w2) + k + 1"
    "files w' = (files ?w2)(tmp h := File b)" by blast
  have "convert_loop h cmd ?w1 = convert_loop h cmd (run_flac h cmd ?w2)"
    using nf by (subst convert_loop.simps) simp
  with w' fl show ?case by (simp add: fun_eq_iff)
qed


lemma wait_file_present: "isfile w f \<Longrightarrow> wait_file f n w = w"
  by (cases n) simp_all

lemma load_converted:
  assumes "files w (tmp h) = File b"
  shows "\<exists>w' g. load_and_build h f opt ft True (tmp h) w = (w', Inr g) \<and>
           shell_log w' = shell_log w \<and> audio (self_request g) = b \<and>
           files w' (tmp h) = Missing"
proof -
  let ?w1 = "wmessage h (''Loading: '' @ f @ '' as '' @ lang opt @ '', audio/'' @ ft) w"
  have "isfile ?w1 (tmp h)" using assms by (simp add: isfile_def)
  then have "wait_file (tmp h) 10 ?w1 = ?w1" by (rule wait_file_present)
  then show ?thesis using assms
    by (simp add: load_and_build_def Let_def)
qed

lemma init_wav_never:
  assumes "isfile w f" "splitext_ext (seps h) f = ''.wav''" "isfile w (FLAC_PATH h)"
    and "\<not> isfile w (tmp h)" and "\<forall>n \<ge> length (shell_log w). snd (flac_run h n) = None"
  shows "GoogleSpeech_init h f opt w = None"
proof -
  let ?cmd = "[FLAC_PATH h, ''-8'', ''-f'', ''--totally-silent'', ''-o'', tmp h, f]"
  have "\<not> isfile (run_flac h ?cmd w) (tmp h)"
    using assms(4,5) by (simp add: run_flac_isfile_tmp)
  moreover have "\<forall>n \<ge> length (shell_log (run_flac h ?cmd w)). snd (flac_run h n) = None"
    using assms(5) by simp
  ultimately have "convert_loop h ?cmd (run_flac h ?cmd w) = None"
    by (rule convert_loop_never)
  then show ?thesis using assms(1-3)
    by (simp add: GoogleSpeech_init_def Let_def)
qed

lemma init_wav_after:
  assumes "isfile w f" "splitext_ext (seps h) f = ''.wav''" "isfile w (FLAC_PATH h)"
    and "\<not> isfile w (tmp h)"
    and "\<forall>j < k. snd (flac_run h (length (shell_log w) + j)) = None"
    and "snd (flac_run h (length (shell_log w) + k)) = Some b"
  shows "\<exists>w' g. GoogleSpeech_init h f opt w = Some (w', Inr g) \<and>
           length (shell_log w') = length (shell_log w) + k + 1 \<and>
           audio (self_request g) = b"
proof -
  let ?cmd = "[FLAC_PATH h, ''-8'', ''-f'', ''--totally-silent'', ''-o'', tmp h, f]"
  from convert_loop_after[OF assms(4,5,6), of ?cmd] obtain w1 where w1:
    "convert_loop h ?cmd (run_flac h ?cmd w) = Some w1"
    "length (shell_log w1) = length (shell_log w) + k + 1"
    "files w1 = (files w)(tmp h := File b)" by blast
  from w1(3) have "files w1 (tmp h) = File b" by simp
  from load_converted[OF this, of f opt "''x-flac''"] obtain w' g where
    "load_and_build h f opt ''x-flac'' True (tmp h) w1 = (w', Inr g)"
    "shell_log w' = shell_log w1" "audio (self_request g) = b" by blast
  with w1 assms(1-3) show ?thesis
    by (simp add: GoogleSpeech_init_def Let_def)
qed

text \<open>
  Claim C7 says that the encoder is run again only a bounded number of times and that
  the constructor then gives up. With an encoder that never writes its output the
  constructor never returns.
\<close>

theorem init_wav_unbounded_counterexample:
  "GoogleSpeech_init (sample_host None) ''clip.wav'' sample_options sample_world = None"
  by (rule init_wav_never)
     (simp_all add: sample_host_def sample_world_def isfile_def splitext_ext_def)

text \<open>
  Claim C7, as the code has it. For a wav input, with the encoder installed and no
  file of the name \<^verbatim>\<open>tmp\<close> yet, the loop of line 248 runs the encoder until the
  output file exists and has no budget: if no run ever writes the file the constructor
  does not return (no error is raised); if the run number \<open>k\<close> (counting from 0) is
  the first to write it, the encoder is run \<open>k + 1\<close> times and the request is built
  from the bytes written.
\<close>

theorem init_wav_encoder_runs:
  assumes "isfile w f" "splitext_ext (seps h) f = ''.wav''" "isfile w (FLAC_PATH h)"
    and "\<not> isfile w (tmp h)"
  shows "((\<forall>n \<ge> length (shell_log w). snd (flac_run h n) = None) \<longrightarrow>
            GoogleSpeech_init h f opt w = None) \<and>
         ((\<forall>j < k. snd (flac_run h (length (shell_log w) + j)) = None) \<and>
          snd (flac_run h (length (shell_log w) + k)) = Some b \<longrightarrow>
            (\<exists>w' g. GoogleSpeech_init h f opt w = Some (w', Inr g) \<and>
                    length (shell_log w') = length (shell_log w) + k + 1 \<and>
                    audio (self_request g) = b))"
  using init_wav_never[OF assms] init_wav_after[OF assms] by blast

theorem init_wav_encoder_runs_witness:
  "isfile sample_world ''clip.wav'' \<and>
   splitext_ext (seps (sample_host (Some 2))) ''clip.wav'' = ''.wav'' \<and>
   isfile sample_world (FLAC_PATH (sample_host (Some 2))) \<and>
   \<not> isfile sample_world (tmp (sample_host (Some 2))) \<and>
   snd (flac_run (sample_host (Some 2)) (length (shell_log sample_world) + 0)) = None \<and>
   snd (flac_run (sample_host (Some 2)) (length (shell_log sample_world) + 1)) = None \<and>
   snd (flac_run (sample_host (Some 2)) (length (shell_log sample_world) + 2)) = Some ''fLaC'' \<and>
   (\<exists>w' g. GoogleSpeech_init (sample_host (Some 2)) ''clip.wav'' sample_options sample_world =
             Some (w', Inr g) \<and>
           length (shell_log w') = length (shell_log sample_world) + 2 + 1 \<and>
           audio (self_request g) = ''fLaC'') \<and>
   GoogleSpeech_init (sample_host None) ''clip.wav'' sample_options sample_world = None"
  using init_wav_encoder_runs[where w = sample_world and f = "''clip.wav''" and h = "sample_host (Some 2)"
          and k = 2 and b = "''fLaC''" and opt = sample_options]
        init_wav_encoder_runs[where w = sample_world and f = "''clip.wav''" and h = "sample_host None"
          and k = 0 and b = "''fLaC''" and opt = sample_options]
  by (simp add: sample_host_def sample_world_def isfile_def splitext_ext_def)

section \<open>What holds in every state the threads can reach\<close>

text \<open>
  Classes of positions of the worker: before \<^verbatim>\<open>started\<close> is set, before \<^verbatim>\<open>duration\<close>
  is set, before a response can have been stored, after \<^verbatim>\<open>_unpackRaw\<close>, and where
  \<^verbatim>\<open>running\<close> can be set.
\<close>

fun pre_started :: "wpc \<Rightarrow> bool" where
  "pre_started L195 = True"
| "pre_started L196 = True"
| "pre_started L197 = True"
| "pre_started _ = False"

fun pre_duration :: "wpc \<Rightarrow> bool" where
  "pre_duration L195 = True"
| "pre_duration L196 = True"
| "pre_duration L197 = True"
| "pre_duration L198 = True"
| "pre_duration _ = False"

fun pre_response :: "wpc \<Rightarrow> bool" where
  "pre_response L195 = True"
| "pre_response L196 = True"
| "pre_response L197 = True"
| "pre_response L198 = True"
| "pre_response L200 = True"
| "pre_response L204 = True"
| "pre_response (L206 ex) = True"
| "pre_response (L207 ex) = True"
| "pre_response L208 = True"
| "pre_response _ = False"

fun post_unpack :: "wpc \<Rightarrow> bool" where
  "post_unpack L213 = True"
| "post_unpack L214 = True"
| "post_unpack WReturned = True"
| "post_unpack (WRaised ex) = True"
| "post_unpack _ = False"

fun may_run :: "wpc \<Rightarrow> bool" where
  "may_run L195 = False"
| "may_run L196 = False"
| "may_run L214 = False"
| "may_run L216 = False"
| "may_run WReturned = False"
| "may_run _ = True"

text \<open>
  The invariant: how the flags and the parsed fields depend on where \<^verbatim>\<open>run\<close> is.
\<close>

definition rinv :: "sys \<Rightarrow> bool" where
  "rinv s =
     (started (task s) = (\<not> pre_started (wpc s)) \<and>
      (t0 (task s) = None) = (wpc s = L195) \<and>
      (running (task s) \<longrightarrow> may_run (wpc s)) \<and>
      (timedout (task s) \<longrightarrow> wpc s = WReturned \<and> json (task s) = None) \<and>
      (wpc s = WReturned \<and> \<not> timedout (task s) \<longrightarrow> json (task s) \<noteq> None) \<and>
      (json (task s) \<noteq> None \<longrightarrow> post_unpack (wpc s)) \<and>
      (wpc s = L213 \<or> wpc s = L214 \<longrightarrow> json (task s) \<noteq> None) \<and>
      (json (task s) = None \<longrightarrow> unparsed (task s)) \<and>
      (raw (task s) \<noteq> EmptyStr \<longrightarrow> \<not> pre_response (wpc s)) \<and>
      (raw (task s) = EmptyStr \<and> (wpc s = L209 \<or> wpc s = L211) \<longrightarrow> \<not> running (task s)) \<and>
      (wpc s = L212 \<longrightarrow> raw (task s) \<noteq> EmptyStr) \<and>
      (json (task s) \<noteq> None \<longrightarrow> raw (task s) \<noteq> EmptyStr) \<and>
      (duration (task s) = None) = pre_duration (wpc s))"

lemma unpackRaw_frame:
  "started (fst (unpackRaw rt t)) = started t"
  "running (fst (unpackRaw rt t)) = running t"
  "timedout (fst (unpackRaw rt t)) = timedout t"
  "t0 (fst (unpackRaw rt t)) = t0 t"
  "duration (fst (unpackRaw rt t)) = duration t"
  "raw (fst (unpackRaw rt t)) = raw t"
  "request (fst (unpackRaw rt t)) = request t"
  "response (fst (unpackRaw rt t)) = response t"
  "stopflag (fst (unpackRaw rt t)) = stopflag t"
  "filename (fst (unpackRaw rt t)) = filename t"
  by (simp_all add: unpackRaw_def Let_def store_conf_def
        split: sum.splits prod.splits option.splits)

lemma unpackRaw_json_set:
  "snd (unpackRaw rt t) = None \<Longrightarrow> json (fst (unpackRaw rt t)) \<noteq> None"
  by (simp add: unpackRaw_def Let_def store_conf_def
        split: sum.splits prod.splits option.splits)

lemma unpackRaw_json_None:
  "json (fst (unpackRaw rt t)) = None \<Longrightarrow> fst (unpackRaw rt t) = t"
  by (simp add: unpackRaw_def Let_def store_conf_def
        split: sum.splits prod.splits option.splits)

lemma inv_init: "rinv (init_sys req now)"
  by (simp add: rinv_def init_sys_def init_task_def unparsed_def)

lemma inv_tick: "rinv s \<Longrightarrow> rinv (step e s (Tick d))"
  by (simp add: rinv_def)

lemma inv_stop: "rinv s \<Longrightarrow> rinv (step e s Stop)"
  by (simp add: rinv_def stop_def unparsed_def)

lemma inv_caller: "rinv s \<Longrightarrow> rinv (step e s Caller)"
  by (cases "cpc s")
     (auto simp: rinv_def caller_def message_def Let_def unparsed_def split: sum.splits option.splits)


lemma inv_worker: "rinv s \<Longrightarrow> rinv (step e s Worker)"
proof (cases "wpc s")
  case L212
  assume i: "rinv s"
  obtain t' x where u: "unpackRaw (runtime e) (task s) = (t', x)" by (cases "unpackRaw (runtime e) (task s)")
  have fr: "started t' = started (task s)" "running t' = running (task s)"
    "timedout t' = timedout (task s)" "t0 t' = t0 (task s)" "duration t' = duration (task s)"
    "raw t' = raw (task s)"
    using unpackRaw_frame[of "runtime e" "task s"] u by simp_all
  show ?thesis
  proof (cases x)
    case None
    with u have "json t' \<noteq> None" using unpackRaw_json_set[of "runtime e" "task s"] by simp
    with i L212 u None fr show ?thesis
      by (auto simp: rinv_def worker_def Let_def)
  next
    case (Some ex)
    have "json t' = None \<Longrightarrow> t' = task s"
      using unpackRaw_json_None[of "runtime e" "task s"] u by simp
    with i L212 u Some fr show ?thesis
      by (auto simp: rinv_def worker_def Let_def)
  qed
qed (auto simp: rinv_def worker_def Let_def message_def warn_def unparsed_def
          split: outcome.splits option.splits)

lemma inv_step: "rinv s \<Longrightarrow> rinv (step e s a)"
  by (cases a) (simp_all only: inv_worker inv_caller inv_stop inv_tick)

lemma exec_Nil [simp]: "exec e [] s = s"
  by (simp add: exec_def)

lemma exec_Cons [simp]: "exec e (a # as) s = exec e as (step e s a)"
  by (simp add: exec_def)

lemma exec_append: "exec e (as @ bs) s = exec e bs (exec e as s)"
  by (simp add: exec_def)

lemma inv_exec: "rinv s \<Longrightarrow> rinv (exec e as s)"
  by (induction as arbitrary: s) (simp_all add: inv_step)

lemma inv_reach: "rinv (exec e as (init_sys req now))"
  by (rule inv_exec[OF inv_init])

end
